theory Spec2Isabelle
  imports Complex_Main
begin

section \<open>Python values used by the engine\<close>

text \<open>
  Strings are byte lists; the helpers below are the Python string methods the engine
  calls, on ASCII text. An exception is a value of type \<open>exn\<close>; a function that can
  raise returns \<open>exn + 'a\<close> with \<open>Inl\<close> for the exception.
\<close>

datatype exn =
    ValueError
  | KeyError
  | IndexError
  | Failure string

abbreviation CRLF :: string where
  "CRLF \<equiv> [CHR 0x0D, CHR 0x0A]"

definition lower_char :: "char \<Rightarrow> char" where
  "lower_char c =
     (case map_of (zip ''ABCDEFGHIJKLMNOPQRSTUVWXYZ'' ''abcdefghijklmnopqrstuvwxyz'') c of
        None \<Rightarrow> c
      | Some d \<Rightarrow> d)"

text \<open>\<^verbatim>\<open>str.lower()\<close> and \<^verbatim>\<open>str.casefold()\<close> on ASCII.\<close>

definition py_lower :: "string \<Rightarrow> string" where
  "py_lower s = map lower_char s"

text \<open>\<^verbatim>\<open>str.isspace()\<close> on ASCII: tab to carriage return, the four separators, space.\<close>

definition py_isspace :: "char \<Rightarrow> bool" where
  "py_isspace c =
     (let n = (of_char c :: nat) in (9 \<le> n \<and> n \<le> 13) \<or> (28 \<le> n \<and> n \<le> 32))"

definition py_strip :: "string \<Rightarrow> string" where
  "py_strip s = rev (dropWhile py_isspace (rev (dropWhile py_isspace s)))"

definition startswith :: "string \<Rightarrow> string \<Rightarrow> bool" where
  "startswith s p = (take (length p) s = p)"

text \<open>\<^verbatim>\<open>p in s\<close> for strings.\<close>

fun py_in :: "string \<Rightarrow> string \<Rightarrow> bool" where
  "py_in p [] = (p = [])"
| "py_in p (c # cs) = (startswith (c # cs) p \<or> py_in p cs)"

text \<open>\<^verbatim>\<open>s.split(sep)\<close> for a one-character separator.\<close>

fun split_char :: "char \<Rightarrow> string \<Rightarrow> string list" where
  "split_char sep [] = [[]]"
| "split_char sep (c # cs) =
     (if c = sep then [] # split_char sep cs
      else (case split_char sep cs of
              [] \<Rightarrow> [[c]]
            | w # ws \<Rightarrow> (c # w) # ws))"

text \<open>
  \<^verbatim>\<open>s.split(sep, 1)\<close>: \<open>Some (before, after)\<close> when the separator occurs, \<open>None\<close>
  when the result is the one-element list.
\<close>

fun split_once :: "string \<Rightarrow> string \<Rightarrow> (string \<times> string) option" where
  "split_once sep [] = (if sep = [] then Some ([], []) else None)"
| "split_once sep (c # cs) =
     (if startswith (c # cs) sep then Some ([], drop (length sep) (c # cs))
      else (case split_once sep cs of
              None \<Rightarrow> None
            | Some (a, b) \<Rightarrow> Some (c # a, b)))"

text \<open>
  \<^verbatim>\<open>int(s, base)\<close> for base 10 and 16: surrounding white space, one optional sign, for
  base 16 an optional \<^verbatim>\<open>0x\<close> prefix, then digits, where single underscores may separate
  digits. \<open>None\<close> is Python's ValueError.
\<close>

definition digit_val :: "nat \<Rightarrow> char \<Rightarrow> nat option" where
  "digit_val b c =
     (let n = (of_char c :: nat);
          v = (if 48 \<le> n \<and> n \<le> 57 then Some (n - 48)
               else if 97 \<le> n \<and> n \<le> 122 then Some (n - 87)
               else if 65 \<le> n \<and> n \<le> 90 then Some (n - 55)
               else None)
      in case v of None \<Rightarrow> None | Some d \<Rightarrow> if d < b then Some d else None)"

fun parse_digits :: "nat \<Rightarrow> nat \<Rightarrow> string \<Rightarrow> nat option" where
  "parse_digits b acc [] = Some acc"
| "parse_digits b acc [c] =
     (case digit_val b c of None \<Rightarrow> None | Some v \<Rightarrow> Some (acc * b + v))"
| "parse_digits b acc (c # d # ds) =
     (if c = CHR ''_'' then
        (case digit_val b d of None \<Rightarrow> None | Some v \<Rightarrow> parse_digits b (acc * b + v) ds)
      else
        (case digit_val b c of None \<Rightarrow> None | Some v \<Rightarrow> parse_digits b (acc * b + v) (d # ds)))"

definition parse_nat_lit :: "nat \<Rightarrow> string \<Rightarrow> nat option" where
  "parse_nat_lit b s =
     (case s of
        [] \<Rightarrow> None
      | c # cs \<Rightarrow> (case digit_val b c of None \<Rightarrow> None | Some v \<Rightarrow> parse_digits b v cs))"

definition strip_radix_prefix :: "nat \<Rightarrow> string \<Rightarrow> string" where
  "strip_radix_prefix b s =
     (if b = 16 \<and> (startswith s ''0x'' \<or> startswith s ''0X'') then
        (let r = drop 2 s in if startswith r ''_'' then drop 1 r else r)
      else s)"

definition py_int :: "nat \<Rightarrow> string \<Rightarrow> int option" where
  "py_int b s =
     (let t = py_strip s;
          neg = startswith t ''-'';
          u = (if startswith t ''-'' \<or> startswith t ''+'' then drop 1 t else t)
      in case parse_nat_lit b (strip_radix_prefix b u) of
           None \<Rightarrow> None
         | Some n \<Rightarrow> Some (if neg then - int n else int n))"

section \<open>Response cache (\<^verbatim>\<open>networking/cache_manager.py\<close>)\<close>

text \<open>
  Header names are already folded to lower case by the reader. A parsed
  Content-Security-Policy is kept as its header text. The cache maps the URL string to
  the tuple \<open>(status, headers, body, csp, expires_at)\<close>; the value of \<^verbatim>\<open>time.time()\<close>
  at the call is the argument \<open>now\<close>.
\<close>

type_synonym headers = "string \<rightharpoonup> string"
type_synonym csp = string
type_synonym response = "int \<times> headers \<times> string \<times> csp option"
type_synonym cache = "string \<rightharpoonup> (int \<times> headers \<times> string \<times> csp option \<times> real)"

text \<open>\<^verbatim>\<open>CacheManager.get\<close>: the looked-up response, and the cache after the call.\<close>

definition cache_get :: "cache \<Rightarrow> string \<Rightarrow> real \<Rightarrow> response option \<times> cache" where
  "cache_get c url_str now =
     (case c url_str of
        None \<Rightarrow> (None, c)
      | Some (status, hdrs, body, csp, expires_at) \<Rightarrow>
          if now \<ge> expires_at then (None, c(url_str := None))
          else (Some (status, hdrs, body, csp), c))"

text \<open>
  The loop of \<^verbatim>\<open>CacheManager.set\<close> over the directives: the first directive that starts
  with \<^verbatim>\<open>max-age=\<close> decides, and \<^verbatim>\<open>int\<close> may raise on its value.
\<close>

fun find_max_age :: "string list \<Rightarrow> exn + int option" where
  "find_max_age [] = Inr None"
| "find_max_age (d # ds) =
     (let directive = py_strip d in
      if startswith directive ''max-age='' then
        (case split_once ''='' directive of
           None \<Rightarrow> Inl IndexError
         | Some (k, v) \<Rightarrow> (case py_int 10 v of None \<Rightarrow> Inl ValueError | Some n \<Rightarrow> Inr (Some n)))
      else find_max_age ds)"

text \<open>\<^verbatim>\<open>headers.get("cache-control", "").lower()\<close>\<close>

definition cache_control_of :: "headers \<Rightarrow> string" where
  "cache_control_of hdrs =
     py_lower (case hdrs ''cache-control'' of None \<Rightarrow> [] | Some v \<Rightarrow> v)"

definition cache_set ::
  "cache \<Rightarrow> string \<Rightarrow> int \<Rightarrow> headers \<Rightarrow> string \<Rightarrow> csp option \<Rightarrow> real \<Rightarrow> exn + cache" where
  "cache_set c url_str status hdrs body csp now =
     (let cache_control = cache_control_of hdrs
      in if py_in ''no-store'' cache_control then Inr c
         else (case find_max_age (split_char (CHR '','') cache_control) of
                 Inl e \<Rightarrow> Inl e
               | Inr None \<Rightarrow> Inr c
               | Inr (Some max_age) \<Rightarrow>
                   Inr (c(url_str \<mapsto> (status, hdrs, body, csp, now + real_of_int max_age)))))"

section \<open>URLs (\<^verbatim>\<open>networking/protocols/base_url.py\<close>)\<close>

text \<open>
  The fields of a URL object. \<open>host\<close> and \<open>port\<close> are \<^verbatim>\<open>None\<close> where the class leaves
  them so; \<open>user_agent\<close> is the random string drawn when the object is built.
\<close>

record url =
  schema :: string
  raw_url :: string
  host :: "string option"
  path :: string
  port :: "int option"
  user_agent :: string

text \<open>\<^verbatim>\<open>str(n)\<close> for integers, and the text an f-string gives an optional value.\<close>

definition digit_char :: "nat \<Rightarrow> char" where
  "digit_char d = ''0123456789abcdef'' ! d"

function show_nat :: "nat \<Rightarrow> string" where
  "show_nat n = (if n < 10 then [digit_char n] else show_nat (n div 10) @ [digit_char (n mod 10)])"
  by pat_completeness auto
termination
  by (relation "measure id") auto

declare show_nat.simps [simp del]

definition show_int :: "int \<Rightarrow> string" where
  "show_int i = (if i < 0 then CHR ''-'' # show_nat (nat (- i)) else show_nat (nat i))"

definition show_opt :: "('a \<Rightarrow> string) \<Rightarrow> 'a option \<Rightarrow> string" where
  "show_opt f x = (case x of None \<Rightarrow> ''None'' | Some v \<Rightarrow> f v)"

text \<open>\<^verbatim>\<open>URL.__str__\<close>\<close>

definition url_str :: "url \<Rightarrow> string" where
  "url_str u =
     (let port_part = '':'' @ show_opt show_int (port u) in
      if schema u = ''https'' \<and> port u = Some 443 then
        schema u @ ''://'' @ show_opt id (host u) @ path u
      else if schema u = ''http'' \<and> port u = Some 80 then
        schema u @ ''://'' @ show_opt id (host u) @ path u
      else if schema u = ''file'' then schema u @ ''://'' @ path u
      else schema u @ ''://'' @ show_opt id (host u) @ port_part @ path u)"

text \<open>\<^verbatim>\<open>URL.origin\<close>\<close>

definition origin :: "url \<Rightarrow> string" where
  "origin u =
     (case port u of
        None \<Rightarrow> schema u @ ''://'' @ show_opt id (host u)
      | Some p \<Rightarrow> schema u @ ''://'' @ show_opt id (host u) @ '':'' @ show_int p)"

section \<open>Sending a request (\<^verbatim>\<open>HTTPBase._send_http_request\<close>)\<close>

text \<open>
  The cookie jar maps a host to the cookie text and its lower-cased parameters. The request
  is kept as its request line, its header lines in the order the code appends them, and
  its body; \<open>render_request\<close> is the text handed to \<^verbatim>\<open>socket.send\<close>.
\<close>

type_synonym cookie_jar = "string option \<rightharpoonup> (string \<times> (string \<rightharpoonup> string))"

record http_request =
  request_line :: string
  header_lines :: "(string \<times> string) list"
  payload_text :: string

definition render_request :: "http_request \<Rightarrow> string" where
  "render_request r =
     request_line r @ CRLF @
     concat (map (\<lambda>(k, v). k @ '': '' @ v @ CRLF) (header_lines r)) @
     CRLF @ payload_text r"

text \<open>\<^verbatim>\<open>if payload\<close>: a payload that is \<^verbatim>\<open>None\<close> or empty is false.\<close>

definition truthy :: "string option \<Rightarrow> bool" where
  "truthy payload = (case payload of None \<Rightarrow> False | Some p \<Rightarrow> p \<noteq> [])"

definition http_method :: "string option \<Rightarrow> string" where
  "http_method payload = (if truthy payload then ''POST'' else ''GET'')"

text \<open>
  The decision on the Cookie header for a jar entry \<open>(cookie, params)\<close>: the flag starts
  true and is overwritten only under a referrer, \<^verbatim>\<open>samesite=lax\<close> and a method other
  than GET.
\<close>

definition allow_cookie :: "url \<Rightarrow> (string \<rightharpoonup> string) \<Rightarrow> url option \<Rightarrow> string \<Rightarrow> bool" where
  "allow_cookie self params referrer method =
     (case referrer of
        None \<Rightarrow> True
      | Some r \<Rightarrow>
          if (case params ''samesite'' of None \<Rightarrow> ''none'' | Some v \<Rightarrow> v) = ''lax'' then
            (if method \<noteq> ''GET'' then host self = host r else True)
          else True)"

definition send_http_request ::
  "url \<Rightarrow> cookie_jar \<Rightarrow> url option \<Rightarrow> string option \<Rightarrow> http_request" where
  "send_http_request self jar referrer payload =
     (let method = http_method payload;
          base = [(''Host'', show_opt id (host self)),
                  (''User-Agent'', user_agent self),
                  (''Connection'', ''keep-alive''),
                  (''Accept-Encoding'', ''gzip'')];
          ref = (case referrer of None \<Rightarrow> [] | Some r \<Rightarrow> [(''Referer'', url_str r)]);
          cookie = (case jar (host self) of
                      None \<Rightarrow> []
                    | Some (cookie, params) \<Rightarrow>
                        if allow_cookie self params referrer method then [(''Cookie'', cookie)]
                        else []);
          body = (if truthy payload then
                    [(''Content-Type'', ''application/x-www-form-urlencoded''),
                     (''Content-Length'', show_nat (length (the payload)))]
                  else [])
      in \<lparr> request_line = method @ '' '' @ path self @ '' HTTP/1.1'',
           header_lines = base @ ref @ cookie @ body,
           payload_text = (if truthy payload then the payload else []) \<rparr>)"


section \<open>Reading a response (\<^verbatim>\<open>HTTPBase._read_http_response\<close>)\<close>

text \<open>
  The buffered reader over the socket is the list of bytes not yet read. \<open>readline\<close>
  returns the bytes up to and including the next line feed, or all that is left when
  there is none; \<open>read_n\<close> returns \<open>n\<close> bytes, fewer when the stream ends first, and
  everything for a negative \<open>n\<close>. Lines are ASCII, so \<^verbatim>\<open>decode("utf-8")\<close> leaves them
  as they are.
\<close>

fun readline :: "string \<Rightarrow> string \<times> string" where
  "readline [] = ([], [])"
| "readline (c # cs) =
     (if c = CHR 0x0A then ([c], cs)
      else (case readline cs of (l, r) \<Rightarrow> (c # l, r)))"

definition read_n :: "int \<Rightarrow> string \<Rightarrow> string \<times> string" where
  "read_n n inp = (if n < 0 then (inp, []) else (take (nat n) inp, drop (nat n) inp))"

text \<open>
  The loop over the chunks: a line with the size in base 16, the chunk, the line end
  after it; a size of zero ends the body after one more line. The first argument is
  \<^verbatim>\<open>body_bytes\<close>; the result is the body and the bytes left in the reader.
\<close>

function read_chunks :: "string \<Rightarrow> string \<Rightarrow> exn + (string \<times> string)" where
  "read_chunks body_bytes inp =
     (case readline inp of
        (chunk_size_line, r1) \<Rightarrow>
          (case py_int 16 (py_strip chunk_size_line) of
             None \<Rightarrow> Inl ValueError
           | Some chunk_size \<Rightarrow>
               if chunk_size = 0 then Inr (body_bytes, snd (readline r1))
               else (case read_n chunk_size r1 of
                       (chunk_data, r2) \<Rightarrow>
                         read_chunks (body_bytes @ chunk_data) (snd (readline r2)))))"
  by pat_completeness auto
termination
proof (relation "measure (\<lambda>(body_bytes, inp). length inp)")
  show "wf (measure (\<lambda>(body_bytes, inp). length inp))" by simp
next
  fix body_bytes inp :: string and x chunk_size_line r1 chunk_size xa chunk_data r2
  assume rl: "(chunk_size_line, r1) = readline inp"
    and pi: "py_int 16 (py_strip chunk_size_line) = Some chunk_size"
    and rn: "(chunk_data, r2) = read_n chunk_size r1"
  have le: "length (snd (readline s)) \<le> length s" for s
    by (induction s) (auto split: prod.splits)
  have lt: "fst (readline s) \<noteq> [] \<Longrightarrow> length (snd (readline s)) < length s" for s
    using le [of "tl s"] by (cases s) (auto split: prod.splits)
  have "py_int 16 (py_strip []) = None"
    by (simp add: py_int_def py_strip_def parse_nat_lit_def strip_radix_prefix_def
        startswith_def)
  with pi have "chunk_size_line \<noteq> []" by auto
  with rl have "fst (readline inp) \<noteq> []" by (metis fst_conv)
  then have 1: "length r1 < length inp" using lt [of inp] rl by (metis snd_conv)
  have 2: "length r2 \<le> length r1"
    using rn by (auto simp: read_n_def split: if_splits)
  have 3: "length (snd (readline r2)) \<le> length r2" by (rule le)
  from 1 2 3
  show "((body_bytes @ chunk_data, snd (readline r2)), (body_bytes, inp))
          \<in> measure (\<lambda>(body_bytes, inp). length inp)"
    by simp
qed

declare read_chunks.simps [simp del]

text \<open>
  The body of the response: chunked when the Transfer-Encoding header says so, else the
  number of bytes the Content-Length header gives, else everything up to the end of the
  stream.
\<close>

definition transfer_encoding_of :: "headers \<Rightarrow> string" where
  "transfer_encoding_of hdrs =
     py_lower (case hdrs ''transfer-encoding'' of None \<Rightarrow> [] | Some v \<Rightarrow> v)"

definition read_body :: "headers \<Rightarrow> string \<Rightarrow> exn + (string \<times> string)" where
  "read_body hdrs inp =
     (if transfer_encoding_of hdrs = ''chunked'' then read_chunks [] inp
      else (case hdrs ''content-length'' of
              Some v \<Rightarrow>
                (case py_int 10 v of
                   None \<Rightarrow> Inl ValueError
                 | Some content_length \<Rightarrow> Inr (read_n content_length inp))
            | None \<Rightarrow> Inr (inp, [])))"








section \<open>The rest of \<^verbatim>\<open>_read_http_response\<close>: status line, headers, cookies\<close>

text \<open>\<^verbatim>\<open>status_line.split(" ", 2)\<close> must give three parts.\<close>

definition parse_status_line :: "string \<Rightarrow> exn + (string \<times> string \<times> string)" where
  "parse_status_line status_line =
     (case split_once '' '' status_line of
        None \<Rightarrow> Inl ValueError
      | Some (version, r) \<Rightarrow>
          (case split_once '' '' r of
             None \<Rightarrow> Inl ValueError
           | Some (status, explanation) \<Rightarrow> Inr (version, status, explanation)))"

text \<open>
  The header loop: lines up to the empty line; a line without a colon (the empty string at
  the end of the stream too) makes the unpacking raise.
\<close>

function read_headers :: "headers \<Rightarrow> string \<Rightarrow> exn + (headers \<times> string)" where
  "read_headers hdrs inp =
     (case readline inp of
        (line, rest) \<Rightarrow>
          if line = CRLF then Inr (hdrs, rest)
          else (case split_once '':'' line of
                  None \<Rightarrow> Inl ValueError
                | Some (h, v) \<Rightarrow> read_headers (hdrs(py_lower h \<mapsto> py_strip v)) rest))"
  by pat_completeness auto
termination
proof (relation "measure (\<lambda>(hdrs, inp). length inp)")
  show "wf (measure (\<lambda>(hdrs, inp). length inp))" by simp
next
  fix hdrs :: headers and inp x line rest x2 h v
  assume rl: "(line, rest) = readline inp" and sp: "split_once '':'' line = Some x2"
  have le: "length (snd (readline s)) \<le> length s" for s
    by (induction s) (auto split: prod.splits)
  have lt: "fst (readline s) \<noteq> [] \<Longrightarrow> length (snd (readline s)) < length s" for s
    using le [of "tl s"] by (cases s) (auto split: prod.splits)
  from sp have "line \<noteq> []" by auto
  with rl have "fst (readline inp) \<noteq> []" by (metis fst_conv)
  then have "length rest < length inp" using lt [of inp] rl by (metis snd_conv)
  then show "((hdrs(py_lower h \<mapsto> py_strip v), rest), (hdrs, inp))
               \<in> measure (\<lambda>(hdrs, inp). length inp)"
    by simp
qed

declare read_headers.simps [simp del]

text \<open>The loop over the parameters of a Set-Cookie header.\<close>

fun cookie_params :: "string list \<Rightarrow> (string \<rightharpoonup> string) \<Rightarrow> (string \<rightharpoonup> string)" where
  "cookie_params [] params = params"
| "cookie_params (param # rest) params =
     (case split_once ''='' param of
        Some (k, v) \<Rightarrow> cookie_params rest (params(py_lower (py_strip k) \<mapsto> py_lower v))
      | None \<Rightarrow> cookie_params rest (params(py_lower (py_strip param) \<mapsto> ''true'')))"

definition store_cookie :: "headers \<Rightarrow> string option \<Rightarrow> cookie_jar \<Rightarrow> cookie_jar" where
  "store_cookie hdrs h jar =
     (case hdrs ''set-cookie'' of
        None \<Rightarrow> jar
      | Some cookie \<Rightarrow>
          (case split_once '';'' cookie of
             None \<Rightarrow> jar(h \<mapsto> (cookie, Map.empty))
           | Some (c, rest) \<Rightarrow>
               jar(h \<mapsto> (c, cookie_params (split_char (CHR '';'') rest) Map.empty))))"

section \<open>Sockets and \<^verbatim>\<open>HTTPSURL.request\<close>\<close>

text \<open>
  The process-wide state of the HTTP client: the socket pool keyed by scheme, host and
  port, the sockets closed so far, the number of sockets created, every request sent with
  the socket it went to, the cookie jar and the response cache. What lies outside the
  program is a parameter: the bytes the peer makes readable after a send (given all sends
  so far), whether a host accepts a connection, and the codecs of the standard library.
\<close>

type_synonym socket_key = "string \<times> string option \<times> int option"

record world =
  socket_map :: "socket_key \<rightharpoonup> nat"
  closed_sockets :: "nat list"
  opened :: nat
  sent :: "(nat \<times> string) list"
  COOKIE_JAR :: cookie_jar
  cache_store :: cache

record platform =
  answer :: "(nat \<times> string) list \<Rightarrow> string"
  accepts :: "string option \<Rightarrow> int option \<Rightarrow> bool"
  gunzip :: "string \<Rightarrow> string option"
  decode_ignore :: "string \<Rightarrow> string"

definition socket_key_of :: "url \<Rightarrow> socket_key" where
  "socket_key_of self = (schema self, host self, port self)"

text \<open>\<^verbatim>\<open>_get_socket\<close>: a pooled socket that was closed is dropped from the pool.\<close>

definition get_socket :: "url \<Rightarrow> world \<Rightarrow> nat option \<times> world" where
  "get_socket self w =
     (case socket_map w (socket_key_of self) of
        None \<Rightarrow> (None, w)
      | Some s \<Rightarrow>
          if s \<in> set (closed_sockets w)
          then (None, w\<lparr>socket_map := (socket_map w)(socket_key_of self := None)\<rparr>)
          else (Some s, w))"

definition remove_socket :: "url \<Rightarrow> world \<Rightarrow> world" where
  "remove_socket self w = w\<lparr>socket_map := (socket_map w)(socket_key_of self := None)\<rparr>"

definition close_socket :: "nat \<Rightarrow> world \<Rightarrow> world" where
  "close_socket s w = w\<lparr>closed_sockets := s # closed_sockets w\<rparr>"

text \<open>
  \<^verbatim>\<open>_open_socket\<close>, \<^verbatim>\<open>connect\<close> and \<^verbatim>\<open>_set_socket\<close>: the new socket is numbered by the
  count of sockets created; a refused connection raises.
\<close>

definition open_and_connect :: "platform \<Rightarrow> url \<Rightarrow> world \<Rightarrow> (exn + nat) \<times> world" where
  "open_and_connect P self w =
     (let s = opened w; w1 = w\<lparr>opened := Suc (opened w)\<rparr> in
      if accepts P (host self) (port self)
      then (Inr s, w1\<lparr>socket_map := (socket_map w1)(socket_key_of self \<mapsto> s)\<rparr>)
      else (Inl (Failure ''connect''), w1))"

definition send_on :: "nat \<Rightarrow> url \<Rightarrow> url option \<Rightarrow> string option \<Rightarrow> world \<Rightarrow> world" where
  "send_on s self referrer payload w =
     w\<lparr>sent := sent w @
          [(s, render_request (send_http_request self (COOKIE_JAR w) referrer payload))]\<rparr>"

text \<open>
  \<^verbatim>\<open>_read_http_response\<close> from the status line on: headers, Set-Cookie, body, gzip, text
  decoding, Connection: close, the policy header, and last the status as a number.
\<close>

definition finish_response ::
  "platform \<Rightarrow> url \<Rightarrow> nat \<Rightarrow> string \<Rightarrow> string \<Rightarrow> world \<Rightarrow> (exn + response) \<times> world" where
  "finish_response P self s status_line inp w =
     (case parse_status_line status_line of
        Inl e \<Rightarrow> (Inl e, w)
      | Inr (version, status, explanation) \<Rightarrow>
          (case read_headers Map.empty inp of
             Inl e \<Rightarrow> (Inl e, w)
           | Inr (hdrs, inp1) \<Rightarrow>
               (let w1 = w\<lparr>COOKIE_JAR := store_cookie hdrs (host self) (COOKIE_JAR w)\<rparr> in
                case read_body hdrs inp1 of
                  Inl e \<Rightarrow> (Inl e, w1)
                | Inr (body_bytes, inp2) \<Rightarrow>
                    (case (if py_lower (case hdrs ''content-encoding'' of None \<Rightarrow> [] | Some v \<Rightarrow> v)
                              = ''gzip''
                           then gunzip P body_bytes else Some body_bytes) of
                       None \<Rightarrow> (Inl (Failure ''gzip''), w1)
                     | Some raw \<Rightarrow>
                         (let body = decode_ignore P raw;
                              w2 = (if py_lower (case hdrs ''connection'' of None \<Rightarrow> [] | Some v \<Rightarrow> v)
                                       = ''close''
                                    then remove_socket self (close_socket s w1) else w1);
                              csp = (case hdrs ''content-security-policy'' of
                                       None \<Rightarrow> None
                                     | Some v \<Rightarrow> if v = [] then None else Some v)
                          in case py_int 10 status of
                               None \<Rightarrow> (Inl ValueError, w2)
                             | Some n \<Rightarrow> (Inr (n, hdrs, body, csp), w2))))))"

text \<open>
  \<^verbatim>\<open>_read_http_response\<close>: an empty status line means the pooled socket was stale; the
  socket is closed and replaced, the request is sent again and the new answer is read.
\<close>

definition read_http_response ::
  "platform \<Rightarrow> url \<Rightarrow> nat \<Rightarrow> url option \<Rightarrow> string option \<Rightarrow> world \<Rightarrow> (exn + response) \<times> world" where
  "read_http_response P self s referrer payload w =
     (case readline (answer P (sent w)) of
        (status_line, inp) \<Rightarrow>
          if status_line = [] \<or> py_strip status_line = [] then
            (case open_and_connect P self (remove_socket self (close_socket s w)) of
               (Inl e, w1) \<Rightarrow> (Inl e, w1)
             | (Inr s', w1) \<Rightarrow>
                 (let w2 = send_on s' self referrer payload w1 in
                  case readline (answer P (sent w2)) of
                    (status_line', inp') \<Rightarrow> finish_response P self s' status_line' inp' w2))
          else finish_response P self s status_line inp w)"

text \<open>
  \<^verbatim>\<open>HTTPSURL.request\<close> after a cache miss, up to the store into the cache: take or open
  the socket, send, read, and close the socket when the server asks for it.
\<close>

definition fetch_uncached ::
  "platform \<Rightarrow> url \<Rightarrow> url option \<Rightarrow> string option \<Rightarrow> world \<Rightarrow> (exn + response) \<times> world" where
  "fetch_uncached P self referrer payload w =
     (case get_socket self w of
        (pooled, w1) \<Rightarrow>
          (case (case pooled of Some s \<Rightarrow> (Inr s, w1) | None \<Rightarrow> open_and_connect P self w1) of
             (Inl e, w2) \<Rightarrow> (Inl e, w2)
           | (Inr s, w2) \<Rightarrow>
               (case read_http_response P self s referrer payload
                       (send_on s self referrer payload w2) of
                  (Inl e, w3) \<Rightarrow> (Inl e, w3)
                | (Inr (status, hdrs, body, csp), w3) \<Rightarrow>
                    (Inr (status, hdrs, body, csp),
                     if py_lower (case hdrs ''connection'' of None \<Rightarrow> [] | Some v \<Rightarrow> v) = ''close''
                     then remove_socket self (close_socket s w3) else w3))))"

text \<open>
  \<^verbatim>\<open>HTTPSURL.request\<close>. \<open>t_get\<close> and \<open>t_set\<close> are the clock readings of the cache lookup
  and of the cache store.
\<close>

definition https_request ::
  "platform \<Rightarrow> url \<Rightarrow> url option \<Rightarrow> string option \<Rightarrow> real \<Rightarrow> real \<Rightarrow> world
     \<Rightarrow> (exn + response) \<times> world" where
  "https_request P self referrer payload t_get t_set w =
     (let url_str = schema self @ ''://'' @ raw_url self in
      case cache_get (cache_store w) url_str t_get of
        (Some cached, c) \<Rightarrow> (Inr cached, w\<lparr>cache_store := c\<rparr>)
      | (None, c) \<Rightarrow>
          (case fetch_uncached P self referrer payload (w\<lparr>cache_store := c\<rparr>) of
             (Inl e, w1) \<Rightarrow> (Inl e, w1)
           | (Inr (status, hdrs, body, csp), w1) \<Rightarrow>
               (case cache_set (cache_store w1) url_str status hdrs body csp t_set of
                  Inl e \<Rightarrow> (Inl e, w1)
                | Inr c1 \<Rightarrow> (Inr (status, hdrs, body, csp), w1\<lparr>cache_store := c1\<rparr>))))"


section \<open>DOM nodes, fonts and layout boxes\<close>

text \<open>
  A DOM node with the fields layout reads: the text or the tag, the attributes, the
  children and the computed style. The constants of \<^verbatim>\<open>common/constants.py\<close> are
  parameters.
\<close>

datatype node =
    Text (node_text: string) (style: "string \<rightharpoonup> string")
  | Element (tag: string) (attributes: "string \<rightharpoonup> string") (children: "node list")
      (style: "string \<rightharpoonup> string")
  where "children (Text t s) = []"

record constants =
  HSTEP :: real
  VSTEP :: real
  WIDTH :: real
  HEIGHT :: real
  SCROLL_STEP :: real

text \<open>
  A font is the key of the font cache. The graphics library is a parameter: the width of
  a text and the three metrics of a font (\<^verbatim>\<open>rendering/font.py\<close>).
\<close>

record font =
  font_size :: int
  font_weight :: string
  font_slant :: string

record fontlib =
  measureText :: "font \<Rightarrow> string \<Rightarrow> real"
  fAscent :: "font \<Rightarrow> real"
  fDescent :: "font \<Rightarrow> real"
  fLeading :: "font \<Rightarrow> real"

definition ascent :: "fontlib \<Rightarrow> font \<Rightarrow> real" where
  "ascent L f = \<bar>fAscent L f\<bar>"

definition descent :: "fontlib \<Rightarrow> font \<Rightarrow> real" where
  "descent L f = fDescent L f"

definition linespace :: "fontlib \<Rightarrow> font \<Rightarrow> real" where
  "linespace L f = \<bar>fAscent L f\<bar> + fDescent L f + fLeading L f"

text \<open>
  \<^verbatim>\<open>float(s)\<close> on plain decimal text: white space around, an optional sign, digits with
  an optional fraction. Exponents, underscores, \<^verbatim>\<open>inf\<close> and \<^verbatim>\<open>nan\<close> are outside the
  model and read as \<open>None\<close>, like text Python rejects. The result is the exact number.
\<close>

definition dec_value :: "string \<Rightarrow> nat option" where
  "dec_value ds =
     (if \<forall>c\<in>set ds. digit_val 10 c \<noteq> None
      then Some (foldl (\<lambda>a c. a * 10 + the (digit_val 10 c)) 0 ds) else None)"

definition py_float :: "string \<Rightarrow> real option" where
  "py_float s =
     (let t = py_strip s;
          sign = (if startswith t ''-'' then - 1 else 1 :: real);
          u = (if startswith t ''-'' \<or> startswith t ''+'' then drop 1 t else t)
      in case split_once ''.'' u of
           None \<Rightarrow>
             (if u = [] then None
              else (case dec_value u of None \<Rightarrow> None | Some n \<Rightarrow> Some (sign * real n)))
         | Some (a, b) \<Rightarrow>
             (if a = [] \<and> b = [] then None
              else (case (dec_value a, dec_value b) of
                      (Some i, Some f) \<Rightarrow> Some (sign * (real i + real f / 10 ^ length b))
                    | _ \<Rightarrow> None)))"

text \<open>\<^verbatim>\<open>int(x)\<close> on a float: the integer towards zero.\<close>

definition py_trunc :: "real \<Rightarrow> int" where
  "py_trunc r = (if r \<ge> 0 then \<lfloor>r\<rfloor> else \<lceil>r\<rceil>)"

definition lookup :: "(string \<rightharpoonup> string) \<Rightarrow> string \<Rightarrow> exn + string" where
  "lookup d k = (case d k of None \<Rightarrow> Inl KeyError | Some v \<Rightarrow> Inr v)"

text \<open>
  The font of a node, as \<^verbatim>\<open>BlockLayout.word\<close> computes it to measure a word and
  \<^verbatim>\<open>TextLayout.layout\<close> and \<^verbatim>\<open>InputLayout.layout\<close> compute it again to draw: the same
  lines in the three places.
\<close>

definition style_font :: "(string \<rightharpoonup> string) \<Rightarrow> exn + font" where
  "style_font st =
     (case lookup st ''color'' of Inl e \<Rightarrow> Inl e | Inr color \<Rightarrow>
      case lookup st ''font-weight'' of Inl e \<Rightarrow> Inl e | Inr weight \<Rightarrow>
      case lookup st ''font-style'' of Inl e \<Rightarrow> Inl e | Inr style_val \<Rightarrow>
      case lookup st ''font-size'' of Inl e \<Rightarrow> Inl e | Inr fs \<Rightarrow>
      case py_float (take (length fs - 2) fs) of None \<Rightarrow> Inl ValueError | Some px \<Rightarrow>
        Inr \<lparr> font_size = py_trunc (px * 0.75),
              font_weight = weight,
              font_slant = (if style_val = ''normal'' then ''roman''
                            else if style_val = ''oblique'' then ''italic'' else style_val) \<rparr>)"

text \<open>
  Layout boxes with their final geometry. The references \<^verbatim>\<open>node\<close>, \<^verbatim>\<open>parent\<close> and
  \<^verbatim>\<open>previous\<close> are not stored: layout receives what it reads through them as arguments.
\<close>

datatype box =
    DocumentLayout (box_x: real) (box_y: real) (box_width: real) (box_height: real)
      (box_children: "box list")
  | BlockLayout (box_x: real) (box_y: real) (box_width: real) (box_height: real)
      (box_children: "box list")
  | LineLayout (box_x: real) (box_y: real) (box_width: real) (box_height: real)
      (box_children: "box list")
  | TextLayout (word: string) (box_font: font) (box_x: real) (box_y: real) (box_width: real)
      (box_height: real)
  | InputLayout (box_font: font) (box_x: real) (box_y: real) (box_width: real)
      (box_height: real)
  where "box_children (TextLayout w f x y wd h) = []"
      | "box_children (InputLayout f x y wd h) = []"

text \<open>
  A word or a form control placed on a line, before the line gives it its \<open>y\<close>:
  \<open>it_word\<close> is \<open>None\<close> for an \<^verbatim>\<open>InputLayout\<close>.
\<close>

record item =
  it_word :: "string option"
  it_font :: font
  it_x :: real
  it_width :: real
  it_height :: real

text \<open>\<^verbatim>\<open>str.split()\<close>: the words between runs of white space.\<close>

fun split_ws :: "string \<Rightarrow> string \<Rightarrow> string list" where
  "split_ws cur [] = (if cur = [] then [] else [cur])"
| "split_ws cur (c # cs) =
     (if py_isspace c then (if cur = [] then split_ws [] cs else cur # split_ws [] cs)
      else split_ws (cur @ [c]) cs)"

definition py_split :: "string \<Rightarrow> string list" where
  "py_split s = split_ws [] s"

definition INPUT_WIDTH_PX :: real where
  "INPUT_WIDTH_PX = 200"

text \<open>
  Inline layout state: the lines of the block so far, the last one current. A line starts
  at \<open>lx\<close> and is \<open>lw\<close> wide (the block's \<open>x\<close> and \<open>width\<close>). \<open>new_line\<close> appends a line.
\<close>

definition new_line :: "item list list \<Rightarrow> item list list" where
  "new_line lines = lines @ [[]]"

definition place :: "item list list \<Rightarrow> item \<Rightarrow> item list list" where
  "place lines it = butlast lines @ [last lines @ [it]]"

definition previous_of :: "item list list \<Rightarrow> item option" where
  "previous_of lines = (if last lines = [] then None else Some (last (last lines)))"

text \<open>\<^verbatim>\<open>BlockLayout.word\<close>\<close>

definition word_step ::
  "fontlib \<Rightarrow> real \<Rightarrow> real \<Rightarrow> (string \<rightharpoonup> string) \<Rightarrow> string \<Rightarrow> item list list
     \<Rightarrow> exn + item list list" where
  "word_step L lx lw st w lines =
     (case style_font st of
        Inl e \<Rightarrow> Inl e
      | Inr f \<Rightarrow>
          (let previous = previous_of lines;
               word_width = measureText L f w;
               space_width = measureText L f '' '';
               total_width = (case previous of
                                Some p \<Rightarrow> it_x p + it_width p + space_width + word_width
                              | None \<Rightarrow> lx + word_width);
               wrap = (total_width > lx + lw);
               lines1 = (if wrap then new_line lines else lines);
               previous1 = (if wrap then None else previous);
               x = (case previous1 of
                      Some p \<Rightarrow> it_x p + it_width p + space_width
                    | None \<Rightarrow> lx)
           in Inr (place lines1 \<lparr> it_word = Some w, it_font = f, it_x = x,
                                   it_width = word_width, it_height = linespace L f \<rparr>)))"

text \<open>\<^verbatim>\<open>BlockLayout.input\<close>\<close>

definition input_step ::
  "fontlib \<Rightarrow> real \<Rightarrow> real \<Rightarrow> (string \<rightharpoonup> string) \<Rightarrow> item list list
     \<Rightarrow> exn + item list list" where
  "input_step L lx lw st lines =
     (case style_font st of
        Inl e \<Rightarrow> Inl e
      | Inr f \<Rightarrow>
          (let previous = previous_of lines;
               space = measureText L f '' '';
               temp_x = (case previous of
                           Some p \<Rightarrow> it_x p + it_width p + space
                         | None \<Rightarrow> lx);
               wrap = (temp_x + INPUT_WIDTH_PX > lx + lw);
               lines1 = (if wrap then new_line lines else lines);
               x = (if wrap then lx else temp_x)
           in Inr (place lines1 \<lparr> it_word = None, it_font = f, it_x = x,
                                   it_width = INPUT_WIDTH_PX, it_height = linespace L f \<rparr>)))"

text \<open>The loop \<^verbatim>\<open>for word in node.text.split()\<close> of \<^verbatim>\<open>recurse\<close>.\<close>

fun words_step ::
  "fontlib \<Rightarrow> real \<Rightarrow> real \<Rightarrow> (string \<rightharpoonup> string) \<Rightarrow> string list \<Rightarrow> item list list
     \<Rightarrow> exn + item list list" where
  "words_step L lx lw st [] lines = Inr lines"
| "words_step L lx lw st (w # ws) lines =
     (case word_step L lx lw st w lines of
        Inl e \<Rightarrow> Inl e
      | Inr lines1 \<Rightarrow> words_step L lx lw st ws lines1)"

text \<open>\<^verbatim>\<open>BlockLayout.recurse\<close>, with the loop over the children as \<open>recurse_all\<close>.\<close>

fun recurse :: "fontlib \<Rightarrow> real \<Rightarrow> real \<Rightarrow> node \<Rightarrow> item list list \<Rightarrow> exn + item list list"
  and recurse_all ::
    "fontlib \<Rightarrow> real \<Rightarrow> real \<Rightarrow> node list \<Rightarrow> item list list \<Rightarrow> exn + item list list" where
  "recurse L lx lw (Text t st) lines = words_step L lx lw st (py_split t) lines"
| "recurse L lx lw (Element tg as cs st) lines =
     (if tg = ''br'' then Inr (new_line lines)
      else if tg = ''input'' \<or> tg = ''button'' then input_step L lx lw st lines
      else recurse_all L lx lw cs lines)"
| "recurse_all L lx lw [] lines = Inr lines"
| "recurse_all L lx lw (c # cs) lines =
     (case recurse L lx lw c lines of
        Inl e \<Rightarrow> Inl e
      | Inr lines1 \<Rightarrow> recurse_all L lx lw cs lines1)"

text \<open>\<^verbatim>\<open>max\<close> and \<^verbatim>\<open>sum\<close> over a list, as Python folds them from the left.\<close>

definition py_max :: "real list \<Rightarrow> real" where
  "py_max xs = foldl max (hd xs) (tl xs)"

definition py_sum :: "real list \<Rightarrow> real" where
  "py_sum xs = foldl (+) 0 xs"

text \<open>
  \<^verbatim>\<open>LineLayout.layout\<close> for a line at height \<open>y\<close>: an empty line gets the height of the
  default font; otherwise the words hang from a common baseline.
\<close>

definition default_font :: font where
  "default_font = \<lparr> font_size = 12, font_weight = ''normal'', font_slant = ''roman'' \<rparr>"

definition item_box :: "fontlib \<Rightarrow> real \<Rightarrow> item \<Rightarrow> box" where
  "item_box L baseline it =
     (case it_word it of
        Some w \<Rightarrow> TextLayout w (it_font it) (it_x it) (baseline - ascent L (it_font it))
                    (it_width it) (it_height it)
      | None \<Rightarrow> InputLayout (it_font it) (it_x it) (baseline - ascent L (it_font it))
                  (it_width it) (it_height it))"

definition line_layout :: "fontlib \<Rightarrow> real \<Rightarrow> real \<Rightarrow> real \<Rightarrow> item list \<Rightarrow> box" where
  "line_layout L lx lw y items =
     (if items = [] then LineLayout lx y lw (1.25 * linespace L default_font) []
      else (let max_ascent = py_max (map (\<lambda>it. ascent L (it_font it)) items);
                baseline = y + 1.25 * max_ascent;
                max_descent = py_max (map (\<lambda>it. descent L (it_font it)) items)
            in LineLayout lx y lw (1.25 * (max_ascent + max_descent))
                 (map (item_box L baseline) items)))"

text \<open>The lines of a block from top to bottom: each starts where the one before ends.\<close>

fun lines_layout :: "fontlib \<Rightarrow> real \<Rightarrow> real \<Rightarrow> real \<Rightarrow> item list list \<Rightarrow> box list" where
  "lines_layout L lx lw y [] = []"
| "lines_layout L lx lw y (items # rest) =
     (let b = line_layout L lx lw y items
      in b # lines_layout L lx lw (box_y b + box_height b) rest)"

text \<open>\<^verbatim>\<open>BlockLayout.layout_mode\<close>\<close>

definition BLOCK_ELEMENTS :: "string list" where
  "BLOCK_ELEMENTS =
     [''html'', ''body'', ''article'', ''section'', ''nav'', ''aside'',
      ''h1'', ''h2'', ''h3'', ''h4'', ''h5'', ''h6'', ''hgroup'', ''header'',
      ''footer'', ''address'', ''p'', ''hr'', ''pre'', ''blockquote'',
      ''ol'', ''ul'', ''menu'', ''li'', ''dl'', ''dt'', ''dd'', ''figure'',
      ''figcaption'', ''main'', ''div'', ''table'', ''form'', ''fieldset'',
      ''legend'', ''details'', ''summary'']"

definition is_block_child :: "node \<Rightarrow> bool" where
  "is_block_child c = (case c of Text t st \<Rightarrow> False | Element tg as cs st \<Rightarrow> tg \<in> set BLOCK_ELEMENTS)"

definition layout_mode :: "node \<Rightarrow> string" where
  "layout_mode n =
     (case n of
        Text t st \<Rightarrow> ''inline''
      | Element tg as cs st \<Rightarrow>
          if list_ex is_block_child cs then ''block''
          else if cs \<noteq> [] \<or> tg = ''input'' \<or> tg = ''button'' then ''inline''
          else ''block'')"

text \<open>
  \<^verbatim>\<open>BlockLayout.layout\<close> for a node at \<open>(x, y)\<close> with the parent's width; \<open>blocks_layout\<close>
  is the loop over the child blocks, each below the one before.
\<close>

fun block_layout :: "fontlib \<Rightarrow> real \<Rightarrow> real \<Rightarrow> real \<Rightarrow> node \<Rightarrow> exn + box"
  and blocks_layout :: "fontlib \<Rightarrow> real \<Rightarrow> real \<Rightarrow> real \<Rightarrow> node list \<Rightarrow> exn + box list" where
  "block_layout L x y w (Text t st) =
     (case recurse L x w (Text t st) (new_line []) of
        Inl e \<Rightarrow> Inl e
      | Inr lines \<Rightarrow>
          (let kids = lines_layout L x w y lines
           in Inr (BlockLayout x y w (py_sum (map box_height kids)) kids)))"
| "block_layout L x y w (Element tg as cs st) =
     (if layout_mode (Element tg as cs st) = ''block'' then
        (case blocks_layout L x y w cs of
           Inl e \<Rightarrow> Inl e
         | Inr kids \<Rightarrow> Inr (BlockLayout x y w (py_sum (map box_height kids)) kids))
      else
        (case recurse L x w (Element tg as cs st) (new_line []) of
           Inl e \<Rightarrow> Inl e
         | Inr lines \<Rightarrow>
             (let kids = lines_layout L x w y lines
              in Inr (BlockLayout x y w (py_sum (map box_height kids)) kids))))"
| "blocks_layout L x y w [] = Inr []"
| "blocks_layout L x y w (c # cs) =
     (case block_layout L x y w c of
        Inl e \<Rightarrow> Inl e
      | Inr b \<Rightarrow>
          (case blocks_layout L x (box_y b + box_height b) w cs of
             Inl e \<Rightarrow> Inl e
           | Inr bs \<Rightarrow> Inr (b # bs)))"

text \<open>\<^verbatim>\<open>DocumentLayout.layout\<close> for the root node and the tab width.\<close>

definition document_layout :: "constants \<Rightarrow> fontlib \<Rightarrow> node \<Rightarrow> real \<Rightarrow> exn + box" where
  "document_layout K L nodes width =
     (let x = HSTEP K; y = VSTEP K; w = width - 2 * HSTEP K in
      case block_layout L x y w nodes of
        Inl e \<Rightarrow> Inl e
      | Inr child \<Rightarrow> Inr (DocumentLayout x y w (box_height child) [child]))"

text \<open>\<^verbatim>\<open>tree_to_list\<close> on a layout tree.\<close>

fun tree_to_list :: "box \<Rightarrow> box list" where
  "tree_to_list (DocumentLayout x y w h cs) =
     DocumentLayout x y w h cs # concat (map tree_to_list cs)"
| "tree_to_list (BlockLayout x y w h cs) = BlockLayout x y w h cs # concat (map tree_to_list cs)"
| "tree_to_list (LineLayout x y w h cs) = LineLayout x y w h cs # concat (map tree_to_list cs)"
| "tree_to_list (TextLayout wd f x y w h) = [TextLayout wd f x y w h]"
| "tree_to_list (InputLayout f x y w h) = [InputLayout f x y w h]"

definition is_block_container :: "box \<Rightarrow> bool" where
  "is_block_container b =
     (case b of DocumentLayout x y w h cs \<Rightarrow> True | BlockLayout x y w h cs \<Rightarrow> True | _ \<Rightarrow> False)"

text \<open>The height invariant on every block container of a layout tree.\<close>

definition heights_add_up :: "box \<Rightarrow> bool" where
  "heights_add_up b =
     (\<forall>c\<in>set (tree_to_list b). is_block_container c \<longrightarrow>
        box_height c = sum_list (map box_height (box_children c)))"


section \<open>\<^verbatim>\<open>URLFactory.parse\<close>\<close>

text \<open>\<^verbatim>\<open>URL._parse_host_and_path\<close>: host, path and the optional port after a colon.\<close>

definition parse_host_and_path :: "string \<Rightarrow> exn + (string \<times> string \<times> int option)" where
  "parse_host_and_path raw =
     (case split_once ''/'' (if py_in ''/'' raw then raw else raw @ ''/'') of
        None \<Rightarrow> Inl ValueError
      | Some (h, p) \<Rightarrow>
          (case split_once '':'' h of
             None \<Rightarrow> Inr (h, ''/'' @ p, None)
           | Some (h1, pt) \<Rightarrow>
               (case py_int 10 pt of
                  None \<Rightarrow> Inl ValueError
                | Some n \<Rightarrow> Inr (h1, ''/'' @ p, Some n))))"

text \<open>
  Modelled from the spec: the class \<^verbatim>\<open>HTTPURL\<close> (\<^verbatim>\<open>http_url.py\<close> is not among the
  sources); the specification gives it the default port 80, as \<^verbatim>\<open>HTTPSURL\<close> has 443.
\<close>

definition default_port :: "string \<Rightarrow> int" where
  "default_port sch = (if sch = ''https'' then 443 else 80)"

text \<open>
  \<^verbatim>\<open>URLFactory.parse\<close>. The first argument is the user agent the new object draws.
\<close>

definition URLFactory_parse :: "string \<Rightarrow> string \<Rightarrow> exn + url" where
  "URLFactory_parse ua u =
     (if u = ''about:blank'' then
        Inr \<lparr> schema = ''about'', raw_url = ''blank'', host = Some ''blank'', path = ''/'',
              port = None, user_agent = ua \<rparr>
      else (case split_once ''://'' u of
              None \<Rightarrow> Inl ValueError
            | Some (sch, rest) \<Rightarrow>
                if sch = ''http'' \<or> sch = ''https'' then
                  (case parse_host_and_path rest of
                     Inl e \<Rightarrow> Inl e
                   | Inr (h, p, pt) \<Rightarrow>
                       Inr \<lparr> schema = sch, raw_url = rest, host = Some h, path = p,
                             port = Some (case pt of None \<Rightarrow> default_port sch | Some n \<Rightarrow> n),
                             user_agent = ua \<rparr>)
                else if sch = ''file'' then
                  Inr \<lparr> schema = sch, raw_url = rest, host = None, path = rest, port = None,
                        user_agent = ua \<rparr>
                else Inl ValueError))"

section \<open>Frames (\<^verbatim>\<open>content/frame.py\<close>)\<close>

text \<open>
  The fields of a frame that loading, history and scrolling read: the URL, the policy and
  the layout tree. The environment of a load is a parameter: \<open>request\<close> is the
  \<^verbatim>\<open>request\<close> method of the HTTP, HTTPS and file URL classes run by a network worker on
  the state \<open>'w\<close> of the outside world, and \<open>build\<close> stands for the steps of
  \<^verbatim>\<open>Frame.load\<close> after the redirect test (parse the body, load the style sheets, style
  and lay out at the tab width, load scripts and child frames), which give the layout
  tree or raise. A function that can raise returns the exception, if any, with the state
  it leaves behind.
\<close>

record frame =
  frame_url :: "url option"
  frame_csp :: "csp option"
  document :: "box option"

record 'w env =
  agent :: string
  request :: "url \<Rightarrow> url option \<Rightarrow> string option \<Rightarrow> 'w \<Rightarrow> (exn + response) \<times> 'w"
  build :: "url \<Rightarrow> string \<Rightarrow> csp option \<Rightarrow> real \<Rightarrow> 'w \<Rightarrow> (exn + box) \<times> 'w"

definition new_frame :: frame where
  "new_frame = \<lparr> frame_url = None, frame_csp = None, document = None \<rparr>"

definition about_blank :: "string \<Rightarrow> url" where
  "about_blank ua = \<lparr> schema = ''about'', raw_url = ''blank'', host = Some ''blank'',
                       path = ''/'', port = None, user_agent = ua \<rparr>"

text \<open>
  \<^verbatim>\<open>NetworkThread.request_sync\<close>: the worker calls \<^verbatim>\<open>url.request\<close>; for
  \<^verbatim>\<open>about:blank\<close> that is the constant empty page. An exception becomes the error of the
  response (\<open>Inl\<close>); every exception of the client has a message, so the error is true.
\<close>

definition request_sync ::
  "'w env \<Rightarrow> url \<Rightarrow> url option \<Rightarrow> string option \<Rightarrow> 'w \<Rightarrow> (exn + response) \<times> 'w" where
  "request_sync E u referrer payload w =
     (if schema u = ''about'' then (Inr (200, Map.empty, [], None), w)
      else request E u referrer payload w)"

text \<open>
  The page fetch of \<^verbatim>\<open>Frame.load\<close> with its \<^verbatim>\<open>try\<close>: any exception, a response with
  an error too, is answered by fetching \<^verbatim>\<open>about:blank\<close>.
\<close>

definition fetch_page ::
  "'w env \<Rightarrow> frame \<Rightarrow> string \<Rightarrow> string option \<Rightarrow> 'w \<Rightarrow> (url \<times> response) \<times> 'w" where
  "fetch_page E self u payload w =
     (case URLFactory_parse (agent E) u of
        Inl e \<Rightarrow> ((about_blank (agent E), (200, Map.empty, [], None)), w)
      | Inr url_obj \<Rightarrow>
          (case request_sync E url_obj (frame_url self) payload w of
             (Inl e, w1) \<Rightarrow> ((about_blank (agent E), (200, Map.empty, [], None)), w1)
           | (Inr r, w1) \<Rightarrow> ((url_obj, r), w1)))"

text \<open>\<^verbatim>\<open>Frame.load\<close>; \<open>width\<close> is the width of the tab.\<close>

function frame_load ::
  "'w env \<Rightarrow> real \<Rightarrow> frame \<Rightarrow> string \<Rightarrow> string option \<Rightarrow> int \<Rightarrow> 'w
     \<Rightarrow> (exn option \<times> frame) \<times> 'w" where
  "frame_load E width self u payload max_redirects w =
     (if max_redirects \<le> 0 then ((Some (Failure ''Too many redirects''), self), w)
      else (case fetch_page E self u payload w of
              ((url_obj, (status, hdrs, body, csp)), w1) \<Rightarrow>
                if 300 \<le> status \<and> status < 400 then
                  (case hdrs ''location'' of
                     None \<Rightarrow> ((Some (Failure ''Redirect without Location header''), self), w1)
                   | Some location \<Rightarrow>
                       if location \<noteq> [] then
                         frame_load E width self location None (max_redirects - 1) w1
                       else ((Some (Failure ''Redirect without Location header''), self), w1))
                else
                  (let self1 = self\<lparr>frame_url := Some url_obj, frame_csp := csp\<rparr> in
                   case build E url_obj body csp width w1 of
                     (Inl e, w2) \<Rightarrow> ((Some e, self1), w2)
                   | (Inr doc, w2) \<Rightarrow> ((None, self1\<lparr>document := Some doc\<rparr>), w2))))"
  by pat_completeness auto
termination
  by (relation "measure (\<lambda>(E, width, self, u, payload, max_redirects, w). nat max_redirects)")
    auto

declare frame_load.simps [simp del]

section \<open>Tabs (\<^verbatim>\<open>content/tab.py\<close>)\<close>

record tab =
  scroll :: real
  tab_width :: real
  tab_height :: real
  history :: "string list"
  root_frame :: "frame option"
  needs_render :: bool

text \<open>\<^verbatim>\<open>Tab.__init__\<close> for a chrome of the given height.\<close>

definition new_tab :: "constants \<Rightarrow> real \<Rightarrow> tab" where
  "new_tab K chrome_height =
     \<lparr> scroll = 0, tab_width = WIDTH K, tab_height = HEIGHT K - chrome_height, history = [],
       root_frame = None, needs_render = False \<rparr>"

text \<open>The property \<^verbatim>\<open>Tab.url\<close>.\<close>

definition tab_url :: "tab \<Rightarrow> url option" where
  "tab_url t = (case root_frame t of None \<Rightarrow> None | Some f \<Rightarrow> frame_url f)"

definition get_max_y :: "constants \<Rightarrow> tab \<Rightarrow> real" where
  "get_max_y K t =
     (case root_frame t of
        None \<Rightarrow> 0
      | Some f \<Rightarrow> (case document f of None \<Rightarrow> 0 | Some d \<Rightarrow> box_height d + 2 * VSTEP K))"

definition max_scroll :: "constants \<Rightarrow> tab \<Rightarrow> real" where
  "max_scroll K t = max 0 (get_max_y K t - tab_height t)"

definition scrolldown :: "constants \<Rightarrow> tab \<Rightarrow> tab" where
  "scrolldown K t = t\<lparr>scroll := min (scroll t + SCROLL_STEP K) (max_scroll K t)\<rparr>"

definition scollup :: "constants \<Rightarrow> tab \<Rightarrow> tab" where
  "scollup K t = (if scroll t \<le> 0 then t else t\<lparr>scroll := max 0 (scroll t - SCROLL_STEP K)\<rparr>)"

text \<open>
  \<^verbatim>\<open>Tab.load\<close>: push the URL, replace the root frame by a new one, load it. The anchor
  branch of \<^verbatim>\<open>Tab.click\<close> ends in this call with the resolved address.
\<close>

definition tab_load ::
  "'w env \<Rightarrow> tab \<Rightarrow> string \<Rightarrow> string option \<Rightarrow> int \<Rightarrow> 'w \<Rightarrow> (exn option \<times> tab) \<times> 'w" where
  "tab_load E t u payload max_redirects w =
     (let t1 = t\<lparr>history := history t @ [u], root_frame := Some new_frame\<rparr> in
      case frame_load E (tab_width t1) new_frame u payload max_redirects w of
        ((e, f), w1) \<Rightarrow> ((e, t1\<lparr>root_frame := Some f\<rparr>), w1))"

text \<open>\<^verbatim>\<open>Tab.go_back\<close>\<close>

definition go_back :: "'w env \<Rightarrow> tab \<Rightarrow> 'w \<Rightarrow> (exn option \<times> tab) \<times> 'w" where
  "go_back E t w =
     (if length (history t) > 1 then
        (let t1 = t\<lparr>history := butlast (history t)\<rparr>
         in tab_load E t1 (last (history t1)) None 10 w)
      else ((None, t), w))"

section \<open>The main thread of a tab (\<^verbatim>\<open>background/main_thread.py\<close>)\<close>

text \<open>
  The events handled here are those that act on the loading and scrolling state; a click,
  a key press and a backspace act on the DOM through the script engine and are not part
  of the model. A commit keeps the document height, the scroll offset and the URL text.
\<close>

datatype event =
    LOAD string "string option"
  | SCROLL_DOWN
  | SCROLL_UP
  | SCROLL_TO real
  | RESIZE real real
  | GO_BACK
  | STOP

record commit =
  commit_document_height :: real
  commit_scroll :: real
  commit_url :: "string option"

record main_thread =
  the_tab :: tab
  running :: bool
  commit_queue :: "commit list"

definition commit_of :: "constants \<Rightarrow> tab \<Rightarrow> commit" where
  "commit_of K t =
     \<lparr> commit_document_height = get_max_y K t, commit_scroll = scroll t,
       commit_url = map_option url_str (tab_url t) \<rparr>"

definition do_commit :: "constants \<Rightarrow> main_thread \<Rightarrow> main_thread" where
  "do_commit K m = m\<lparr>commit_queue := commit_queue m @ [commit_of K (the_tab m)]\<rparr>"

text \<open>
  \<^verbatim>\<open>MainThread._handle_event\<close>: an exception of a handler leaves the method before the
  commit.
\<close>

definition handle_event ::
  "constants \<Rightarrow> 'w env \<Rightarrow> event \<Rightarrow> main_thread \<Rightarrow> 'w \<Rightarrow> (exn option \<times> main_thread) \<times> 'w" where
  "handle_event K E ev m w =
     (case ev of
        STOP \<Rightarrow> ((None, m\<lparr>running := False\<rparr>), w)
      | LOAD u payload \<Rightarrow>
          (case tab_load E (the_tab m) u payload 10 w of
             ((Some e, t), w1) \<Rightarrow> ((Some e, m\<lparr>the_tab := t\<rparr>), w1)
           | ((None, t), w1) \<Rightarrow> ((None, do_commit K (m\<lparr>the_tab := t\<rparr>)), w1))
      | SCROLL_DOWN \<Rightarrow> ((None, do_commit K (m\<lparr>the_tab := scrolldown K (the_tab m)\<rparr>)), w)
      | SCROLL_UP \<Rightarrow> ((None, do_commit K (m\<lparr>the_tab := scollup K (the_tab m)\<rparr>)), w)
      | SCROLL_TO s \<Rightarrow> ((None, do_commit K (m\<lparr>the_tab := (the_tab m)\<lparr>scroll := s\<rparr>\<rparr>)), w)
      | RESIZE wd ht \<Rightarrow>
          ((None, m\<lparr>the_tab := (the_tab m)\<lparr>tab_width := wd, tab_height := ht,
                                              needs_render := True\<rparr>\<rparr>), w)
      | GO_BACK \<Rightarrow>
          (case go_back E (the_tab m) w of
             ((Some e, t), w1) \<Rightarrow> ((Some e, m\<lparr>the_tab := t\<rparr>), w1)
           | ((None, t), w1) \<Rightarrow> ((None, do_commit K (m\<lparr>the_tab := t\<rparr>)), w1)))"


section \<open>Sample values for the evaluated instances\<close>

definition shop_url :: url where
  "shop_url = \<lparr> schema = ''https'', raw_url = ''shop.example/pay'', host = Some ''shop.example'',
                 path = ''/pay'', port = Some 443, user_agent = ''UA'' \<rparr>"

definition other_url :: url where
  "other_url = \<lparr> schema = ''https'', raw_url = ''other.example/'', host = Some ''other.example'',
                  path = ''/'', port = Some 443, user_agent = ''UA'' \<rparr>"

definition lax_jar :: cookie_jar where
  "lax_jar = [Some ''shop.example'' \<mapsto> (''token=1'', [''samesite'' \<mapsto> ''lax''])]"


definition sample_wire :: string where
  "sample_wire = ''HTTP/1.1 200 OK'' @ CRLF @ ''Cache-Control: max-age=60'' @ CRLF @
                 ''Content-Length: 5'' @ CRLF @ CRLF @ ''Hello''"

definition sample_platform :: platform where
  "sample_platform = \<lparr> answer = (\<lambda>log. sample_wire), accepts = (\<lambda>h p. True),
                        gunzip = Some, decode_ignore = id \<rparr>"

definition fresh_world :: world where
  "fresh_world = \<lparr> socket_map = Map.empty, closed_sockets = [], opened = 0, sent = [],
                    COOKIE_JAR = Map.empty, cache_store = Map.empty \<rparr>"

definition sample_headers :: headers where
  "sample_headers = [''cache-control'' \<mapsto> ''max-age=60'', ''content-length'' \<mapsto> ''5'']"

definition warm_world :: world where
  "warm_world =
     fresh_world\<lparr> socket_map := [(''https'', Some ''shop.example'', Some 443) \<mapsto> 0],
                   opened := 1,
                   sent := [(0, render_request (send_http_request shop_url Map.empty None None))],
                   cache_store := [''https://shop.example/pay'' \<mapsto>
                                    (200, sample_headers, ''Hello'', None, 60)] \<rparr>"


definition sample_constants :: constants where
  "sample_constants = \<lparr> HSTEP = 13, VSTEP = 18, WIDTH = 800, HEIGHT = 600, SCROLL_STEP = 100 \<rparr>"

definition sample_fontlib :: fontlib where
  "sample_fontlib =
     \<lparr> measureText = (\<lambda>f s. real (length s) * real_of_int (font_size f) / 2),
       fAscent = (\<lambda>f. - real_of_int (font_size f)),
       fDescent = (\<lambda>f. real_of_int (font_size f) / 4),
       fLeading = (\<lambda>f. 0) \<rparr>"

definition style_px :: "string \<Rightarrow> (string \<rightharpoonup> string)" where
  "style_px fs = [''color'' \<mapsto> ''black'', ''font-weight'' \<mapsto> ''normal'',
                  ''font-style'' \<mapsto> ''normal'', ''font-size'' \<mapsto> fs]"

definition sample_dom :: node where
  "sample_dom =
     Element ''html'' Map.empty
       [Element ''body'' Map.empty
          [Element ''p'' Map.empty [Text ''hi'' (style_px ''16px'')] (style_px ''16px''),
           Element ''p'' Map.empty [Text ''bye'' (style_px ''16px'')] (style_px ''16px'')]
          (style_px ''16px'')]
       (style_px ''16px'')"

definition font12 :: font where
  "font12 = \<lparr> font_size = 12, font_weight = ''normal'', font_slant = ''roman'' \<rparr>"

definition sample_doc :: box where
  "sample_doc =
     DocumentLayout 13 18 774 (75 / 2)
       [BlockLayout 13 18 774 (75 / 2)
          [BlockLayout 13 18 774 (75 / 2)
             [BlockLayout 13 18 774 (75 / 4)
                [LineLayout 13 18 774 (75 / 4) [TextLayout ''hi'' font12 13 21 12 15]],
              BlockLayout 13 (147 / 4) 774 (75 / 4)
                [LineLayout 13 (147 / 4) 774 (75 / 4)
                   [TextLayout ''bye'' font12 13 (159 / 4) 18 15]]]]]"


text \<open>
  Two environments whose outside world counts the requests made: in the first every
  address answers with a redirect to itself, in the second every address serves a page
  that lays out 1000 pixels high.
\<close>

definition loop_env :: "nat env" where
  "loop_env =
     \<lparr> agent = ''UA'',
       request = (\<lambda>u r p n.
         (Inr (302, [''location'' \<mapsto> ''https://loop.example/''], [], None), Suc n)),
       build = (\<lambda>u b c wd n. (Inr (DocumentLayout 13 18 774 0 []), n)) \<rparr>"

definition page_env :: "nat env" where
  "page_env =
     \<lparr> agent = ''UA'',
       request = (\<lambda>u r p n. (Inr (200, Map.empty, ''<p>hi</p>'', None), Suc n)),
       build = (\<lambda>u b c wd n. (Inr (DocumentLayout 13 18 774 1000 []), n)) \<rparr>"

definition fresh_tab :: tab where
  "fresh_tab = new_tab sample_constants 100"

definition fresh_thread :: main_thread where
  "fresh_thread = \<lparr> the_tab = fresh_tab, running = True, commit_queue = [] \<rparr>"

text \<open>
  A set of addresses is closed under redirects when the fetch of each of them, from any
  frame and state, is a redirect whose target is again in the set: a redirect cycle.
\<close>

definition redirect_closed :: "'w env \<Rightarrow> string set \<Rightarrow> bool" where
  "redirect_closed E S =
     (\<forall>u\<in>S. \<forall>f p w. case fetch_page E f u p w of
        ((url_obj, (status, hdrs, body, csp)), w1) \<Rightarrow>
          300 \<le> status \<and> status < 400 \<and>
          (\<exists>location\<in>S. hdrs ''location'' = Some location \<and> location \<noteq> []))"

definition loop_url :: url where
  "loop_url = \<lparr> schema = ''https'', raw_url = ''loop.example/'', host = Some ''loop.example'',
                 path = ''/'', port = Some 443, user_agent = ''UA'' \<rparr>"

definition stuck_thread :: main_thread where
  "stuck_thread =
     fresh_thread\<lparr>the_tab := fresh_tab\<lparr>history := [''https://loop.example/''],
                                          root_frame := Some new_frame\<rparr>\<rparr>"


section \<open>Facts about the response cache\<close>

lemma startswith_append: "startswith s p \<Longrightarrow> s = p @ drop (length p) s"
  unfolding startswith_def by (metis append_take_drop_id)

lemma split_once_max_age:
  assumes "startswith s ''max-age=''"
  shows "split_once ''='' s = Some (''max-age'', drop 8 s)"
proof -
  have "s = ''max-age='' @ drop (length ''max-age='') s"
    using assms by (rule startswith_append)
  then obtain r where r: "s = ''max-age='' @ r" by blast
  show ?thesis unfolding r by (simp add: startswith_def)
qed

lemma find_max_age_Some:
  "find_max_age ds = Inr (Some n) \<Longrightarrow>
     \<exists>d\<in>set ds. startswith (py_strip d) ''max-age='' \<and> py_int 10 (drop 8 (py_strip d)) = Some n"
proof (induction ds)
  case Nil
  then show ?case by simp
next
  case (Cons d ds)
  show ?case
  proof (cases "startswith (py_strip d) ''max-age=''")
    case True
    with Cons.prems show ?thesis
      by (auto simp: Let_def split_once_max_age split: option.splits)
  next
    case False
    with Cons show ?thesis by (auto simp: Let_def)
  qed
qed

text \<open>
  C4. \<^verbatim>\<open>CacheManager.set\<close> changes the cache only when the lower-cased Cache-Control
  value does not contain \<^verbatim>\<open>no-store\<close> and has a directive \<^verbatim>\<open>max-age=N\<close>, and then it
  stores the response under the URL with expiry \<open>now + N\<close>. \<^verbatim>\<open>CacheManager.get\<close> returns
  an entry only while \<open>now < expires_at\<close>, and a lookup that finds an entry with
  \<open>expires_at \<le> now\<close> returns nothing and deletes that entry.
\<close>

theorem cache_population_and_lookup:
  "(\<forall>c'. cache_set c u st h b p now = Inr c' \<longrightarrow> c' \<noteq> c \<longrightarrow>
       \<not> py_in ''no-store'' (cache_control_of h) \<and>
       (\<exists>d\<in>set (split_char (CHR '','') (cache_control_of h)). \<exists>n.
           startswith (py_strip d) ''max-age='' \<and>
           py_int 10 (drop 8 (py_strip d)) = Some n \<and>
           c' = c(u \<mapsto> (st, h, b, p, now + real_of_int n))))
   \<and> (\<forall>r c'. cache_get c u now = (Some r, c') \<longrightarrow>
         (\<exists>st' h' b' p' e. c u = Some (st', h', b', p', e) \<and> now < e \<and>
            r = (st', h', b', p') \<and> c' = c))
   \<and> (\<forall>st' h' b' p' e. c u = Some (st', h', b', p', e) \<longrightarrow> e \<le> now \<longrightarrow>
         cache_get c u now = (None, c(u := None)))"
proof (intro conjI allI impI)
  fix c' assume s: "cache_set c u st h b p now = Inr c'" and ne: "c' \<noteq> c"
  show "\<not> py_in ''no-store'' (cache_control_of h)"
    using s ne by (auto simp: cache_set_def Let_def split: if_splits)
  from s ne obtain n where
    f: "find_max_age (split_char (CHR '','') (cache_control_of h)) = Inr (Some n)"
    and c': "c' = c(u \<mapsto> (st, h, b, p, now + real_of_int n))"
    by (auto simp: cache_set_def Let_def split: if_splits sum.splits option.splits)
  from find_max_age_Some [OF f] c'
  show "\<exists>d\<in>set (split_char (CHR '','') (cache_control_of h)). \<exists>n.
           startswith (py_strip d) ''max-age='' \<and>
           py_int 10 (drop 8 (py_strip d)) = Some n \<and>
           c' = c(u \<mapsto> (st, h, b, p, now + real_of_int n))"
    by blast
next
  fix r c' assume "cache_get c u now = (Some r, c')"
  then show "\<exists>st' h' b' p' e. c u = Some (st', h', b', p', e) \<and> now < e \<and>
            r = (st', h', b', p') \<and> c' = c"
    by (auto simp: cache_get_def split: option.splits if_splits)
next
  fix st' h' b' p' e assume "c u = Some (st', h', b', p', e)" "e \<le> now"
  then show "cache_get c u now = (None, c(u := None))"
    by (simp add: cache_get_def)
qed

theorem cache_population_and_lookup_witness:
  "cache_set Map.empty ''https://example.org/a'' 200 [''cache-control'' \<mapsto> ''public, Max-Age=60''] ''hello'' None 5
      = Inr [''https://example.org/a'' \<mapsto> (200, [''cache-control'' \<mapsto> ''public, Max-Age=60''], ''hello'', None, 65)]
   \<and> [''https://example.org/a'' \<mapsto> (200::int, [''cache-control'' \<mapsto> ''public, Max-Age=60''], ''hello'', None, 65::real)] \<noteq> Map.empty
   \<and> \<not> py_in ''no-store'' (cache_control_of [''cache-control'' \<mapsto> ''public, Max-Age=60''])
   \<and> cache_get [''https://example.org/a'' \<mapsto> (200, Map.empty, ''hello'', None, 65)] ''https://example.org/a'' 64
       = (Some (200, Map.empty, ''hello'', None), [''https://example.org/a'' \<mapsto> (200, Map.empty, ''hello'', None, 65)])
   \<and> (64::real) < 65
   \<and> (65::real) \<le> 65
   \<and> cache_get [''https://example.org/a'' \<mapsto> (200, Map.empty, ''hello'', None, 65)] ''https://example.org/a'' 65
       = (None, Map.empty)"
proof -
  let ?h = "[''cache-control'' \<mapsto> ''public, Max-Age=60'']"
  let ?u = "''https://example.org/a''"
  let ?c1 = "[?u \<mapsto> (200::int, ?h, ''hello'', None::csp option, 65::real)]"
  let ?c2 = "[?u \<mapsto> (200::int, Map.empty :: headers, ''hello'', None::csp option, 65::real)]"
  have s: "cache_set Map.empty ?u 200 ?h ''hello'' None 5 = Inr ?c1"
    by (simp add: cache_set_def cache_control_of_def py_lower_def lower_char_def py_strip_def py_isspace_def startswith_def py_int_def
        parse_nat_lit_def digit_val_def strip_radix_prefix_def)
  have ne: "?c1 \<noteq> Map.empty" by simp
  have g: "cache_get ?c2 ?u 64 = (Some (200, Map.empty, ''hello'', None), ?c2)"
    by (simp add: cache_get_def)
  have e: "?c2 ?u = Some (200, Map.empty, ''hello'', None, 65)" by simp
  note T1 = cache_population_and_lookup [of Map.empty ?u 200 ?h "''hello''" None 5]
  note T2 = cache_population_and_lookup [of ?c2 ?u 200 ?h "''hello''" None 64]
  note T3 = cache_population_and_lookup [of ?c2 ?u 200 ?h "''hello''" None 65]
  have a: "\<not> py_in ''no-store'' (cache_control_of ?h)"
    using T1 s ne by blast
  have b: "(64::real) < 65" using T2 g by auto
  have c: "cache_get ?c2 ?u 65 = (None, ?c2(?u := None))"
    using T3 e by (metis order_refl)
  show ?thesis using s ne a g b c by simp
qed

section \<open>Facts about the Cookie header\<close>

lemma map_of_request_cookie:
  "map_of (header_lines (send_http_request self jar referrer payload)) ''Cookie'' =
     (case jar (host self) of
        None \<Rightarrow> None
      | Some (cookie, params) \<Rightarrow>
          if allow_cookie self params referrer (http_method payload) then Some cookie else None)"
  by (simp add: send_http_request_def Let_def split: option.splits)

text \<open>
  C3, as the code has it. When the jar holds a cookie for the request host with
  \<^verbatim>\<open>samesite=lax\<close>, the request carries the Cookie header exactly when the method is GET,
  or no referrer was given, or the request host equals the referrer host; otherwise the
  request has no Cookie header at all.
\<close>

theorem lax_cookie_attachment:
  assumes "jar (host self) = Some (cookie, params)"
    and "params ''samesite'' = Some ''lax''"
  shows "map_of (header_lines (send_http_request self jar referrer payload)) ''Cookie'' =
           (if http_method payload = ''GET'' \<or> referrer = None \<or>
               (\<exists>r. referrer = Some r \<and> host self = host r)
            then Some cookie else None)"
  using assms
  by (auto simp: map_of_request_cookie allow_cookie_def http_method_def split: option.splits)

theorem lax_cookie_attachment_witness:
  "lax_jar (host shop_url) = Some (''token=1'', [''samesite'' \<mapsto> ''lax''])
   \<and> [''samesite'' \<mapsto> ''lax''] ''samesite'' = Some ''lax''
   \<and> http_method (Some ''a=b'') = ''POST''
   \<and> host shop_url \<noteq> host other_url
   \<and> map_of (header_lines (send_http_request shop_url lax_jar (Some other_url) (Some ''a=b'')))
        ''Cookie'' = None
   \<and> map_of (header_lines (send_http_request shop_url lax_jar (Some shop_url) (Some ''a=b'')))
        ''Cookie'' = Some ''token=1''
   \<and> map_of (header_lines (send_http_request shop_url lax_jar (Some other_url) None))
        ''Cookie'' = Some ''token=1''"
proof -
  have j: "lax_jar (host shop_url) = Some (''token=1'', [''samesite'' \<mapsto> ''lax''])"
    by (simp add: lax_jar_def shop_url_def)
  have p: "[''samesite'' \<mapsto> ''lax''] ''samesite'' = Some ''lax''" by simp
  have m: "http_method (Some ''a=b'') = ''POST''" "http_method None = ''GET''"
    by (simp_all add: http_method_def truthy_def)
  have h: "host shop_url \<noteq> host other_url"
    by (simp add: shop_url_def other_url_def)
  note T = lax_cookie_attachment [where jar = lax_jar and self = shop_url
      and cookie = "''token=1''" and params = "[''samesite'' \<mapsto> ''lax'']"]
  show ?thesis
    using T [of "Some other_url" "Some ''a=b''"] T [of "Some shop_url" "Some ''a=b''"]
      T [of "Some other_url" None] j m h
    by simp
qed

text \<open>
  The claim as stated fails for a POST without a referrer: the Cookie header is sent.
\<close>

theorem lax_cookie_no_referrer_counterexample:
  "lax_jar (host shop_url) = Some (''token=1'', [''samesite'' \<mapsto> ''lax''])
   \<and> http_method (Some ''a=b'') \<noteq> ''GET''
   \<and> (''Cookie'', ''token=1'') \<in>
        set (header_lines (send_http_request shop_url lax_jar None (Some ''a=b'')))"
  by (simp add: send_http_request_def lax_jar_def shop_url_def http_method_def truthy_def
      allow_cookie_def)


section \<open>Facts about reading the body\<close>




















section \<open>Facts about \<^verbatim>\<open>HTTPSURL.request\<close>\<close>

lemma cache_hit:
  assumes "cache_store w (schema self @ ''://'' @ raw_url self) = Some (st, h, b, p, e)"
    and "t_get < e"
  shows "https_request P self referrer payload t_get t_set w = (Inr (st, h, b, p), w)"
  using assms by (simp add: https_request_def cache_get_def)

lemma cache_miss_populates:
  assumes miss: "fst (cache_get (cache_store w) (schema self @ ''://'' @ raw_url self) t1) = None"
    and req: "https_request P self r1 p1 t1 t1' w = (Inr (st, h, b, p), w1)"
    and ns: "\<not> py_in ''no-store'' (cache_control_of h)"
    and ma: "find_max_age (split_char (CHR '','') (cache_control_of h)) = Inr (Some N)"
  shows "cache_store w1 (schema self @ ''://'' @ raw_url self) = Some (st, h, b, p, t1' + real_of_int N)"
proof -
  let ?u = "schema self @ ''://'' @ raw_url self"
  obtain c where c: "cache_get (cache_store w) ?u t1 = (None, c)"
    using miss by (cases "cache_get (cache_store w) ?u t1") auto
  obtain res w' where f: "fetch_uncached P self r1 p1 (w\<lparr>cache_store := c\<rparr>) = (res, w')"
    by (cases "fetch_uncached P self r1 p1 (w\<lparr>cache_store := c\<rparr>)") auto
  from req c f obtain c1 where
    res: "res = Inr (st, h, b, p)" and
    cs: "cache_set (cache_store w') ?u st h b p t1' = Inr c1" and
    w1: "w1 = w'\<lparr>cache_store := c1\<rparr>"
    by (auto simp: https_request_def split: sum.splits prod.splits)
  from cs ns ma have "c1 = (cache_store w')(?u \<mapsto> (st, h, b, p, t1' + real_of_int N))"
    by (simp add: cache_set_def)
  with w1 show ?thesis by simp
qed

lemma sample_first_request:
  "https_request sample_platform shop_url None None 0 0 fresh_world =
     (Inr (200, sample_headers, ''Hello'', None), warm_world)"
  by (simp add: https_request_def cache_get_def fresh_world_def shop_url_def fetch_uncached_def
      get_socket_def socket_key_of_def open_and_connect_def sample_platform_def send_on_def
      read_http_response_def sample_wire_def py_strip_def py_isspace_def finish_response_def
      parse_status_line_def startswith_def read_headers.simps py_lower_def lower_char_def
      store_cookie_def read_body_def transfer_encoding_of_def py_int_def parse_nat_lit_def
      strip_radix_prefix_def digit_val_def read_n_def cache_set_def cache_control_of_def
      sample_headers_def warm_world_def Let_def)

text \<open>
  C10. When the cache holds an entry for the URL string that has not expired at the lookup,
  \<^verbatim>\<open>HTTPSURL.request\<close> returns that entry and leaves the whole client state as it was
  (no socket is taken or opened, nothing is sent), whatever the referrer and the payload
  are. So after a request that missed the cache and whose response carried
  \<^verbatim>\<open>max-age=N\<close> without \<^verbatim>\<open>no-store\<close>, a later request to the same URL before the
  expiry, a POST with a payload too, gets that stored response.
\<close>

theorem cached_entry_answers_any_request:
  "(cache_store w (schema self @ ''://'' @ raw_url self) = Some (st, h, b, p, e) \<longrightarrow> t_get < e \<longrightarrow>
      https_request P self referrer payload t_get t_set w = (Inr (st, h, b, p), w))
   \<and> (fst (cache_get (cache_store w0) (schema self @ ''://'' @ raw_url self) t1) = None \<longrightarrow>
        https_request P self r1 p1 t1 t1' w0 = (Inr (st1, h1, b1, c1), w1) \<longrightarrow>
        \<not> py_in ''no-store'' (cache_control_of h1) \<longrightarrow>
        find_max_age (split_char (CHR '','') (cache_control_of h1)) = Inr (Some N) \<longrightarrow>
        t2 < t1' + real_of_int N \<longrightarrow>
          https_request P self r2 p2 t2 t2' w1 = (Inr (st1, h1, b1, c1), w1))"
proof (intro conjI impI)
  assume "cache_store w (schema self @ ''://'' @ raw_url self) = Some (st, h, b, p, e)" "t_get < e"
  then show "https_request P self referrer payload t_get t_set w = (Inr (st, h, b, p), w)"
    by (rule cache_hit)
next
  assume "fst (cache_get (cache_store w0) (schema self @ ''://'' @ raw_url self) t1) = None"
    "https_request P self r1 p1 t1 t1' w0 = (Inr (st1, h1, b1, c1), w1)"
    "\<not> py_in ''no-store'' (cache_control_of h1)"
    "find_max_age (split_char (CHR '','') (cache_control_of h1)) = Inr (Some N)"
  then have "cache_store w1 (schema self @ ''://'' @ raw_url self)
               = Some (st1, h1, b1, c1, t1' + real_of_int N)"
    by (rule cache_miss_populates)
  moreover assume "t2 < t1' + real_of_int N"
  ultimately show "https_request P self r2 p2 t2 t2' w1 = (Inr (st1, h1, b1, c1), w1)"
    by (rule cache_hit)
qed

theorem cached_entry_answers_any_request_witness:
  "cache_store warm_world (schema shop_url @ ''://'' @ raw_url shop_url)
      = Some (200, sample_headers, ''Hello'', None, 60)
   \<and> (10::real) < 60
   \<and> http_method (Some ''a=b'') = ''POST''
   \<and> https_request sample_platform shop_url (Some other_url) (Some ''a=b'') 10 10 warm_world
       = (Inr (200, sample_headers, ''Hello'', None), warm_world)
   \<and> fst (cache_get (cache_store fresh_world) (schema shop_url @ ''://'' @ raw_url shop_url) 0) = None
   \<and> https_request sample_platform shop_url None None 0 0 fresh_world
       = (Inr (200, sample_headers, ''Hello'', None), warm_world)
   \<and> \<not> py_in ''no-store'' (cache_control_of sample_headers)
   \<and> find_max_age (split_char (CHR '','') (cache_control_of sample_headers)) = Inr (Some 60)
   \<and> opened warm_world = 1 \<and> length (sent warm_world) = 1"
proof -
  let ?u = "schema shop_url @ ''://'' @ raw_url shop_url"
  have e: "cache_store warm_world ?u = Some (200, sample_headers, ''Hello'', None, 60)"
    by (simp add: warm_world_def shop_url_def)
  have m: "http_method (Some ''a=b'') = ''POST''" by (simp add: http_method_def truthy_def)
  have g: "fst (cache_get (cache_store fresh_world) ?u 0) = None"
    by (simp add: cache_get_def fresh_world_def)
  have cc: "cache_control_of sample_headers = ''max-age=60''"
    by (simp add: cache_control_of_def sample_headers_def py_lower_def lower_char_def)
  have ns: "\<not> py_in ''no-store'' (cache_control_of sample_headers)"
    unfolding cc by (simp add: startswith_def)
  have ma: "find_max_age (split_char (CHR '','') (cache_control_of sample_headers)) = Inr (Some 60)"
    unfolding cc
    by (simp add: py_strip_def py_isspace_def startswith_def py_int_def parse_nat_lit_def
        strip_radix_prefix_def digit_val_def)
  have o: "opened warm_world = 1" "length (sent warm_world) = 1"
    by (simp_all add: warm_world_def)
  note T = cached_entry_answers_any_request [where P = sample_platform and self = shop_url]
  have a: "https_request sample_platform shop_url (Some other_url) (Some ''a=b'') 10 10 warm_world
             = (Inr (200, sample_headers, ''Hello'', None), warm_world)"
    using T [where w = warm_world and t_get = 10 and e = 60] e by simp
  have b: "https_request sample_platform shop_url (Some other_url) (Some ''a=b'') 10 10 warm_world
             = (Inr (200, sample_headers, ''Hello'', None), warm_world)"
    using T [where ?w0.0 = fresh_world and ?t1.0 = 0 and t1' = 0 and ?t2.0 = 10
        and ?r1.0 = None and ?p1.0 = None and N = 60] g sample_first_request ns ma
    by simp
  show ?thesis using e m a b g sample_first_request ns ma o by simp
qed


section \<open>Facts about layout\<close>

lemma foldl_plus: "foldl (+) a xs = a + sum_list (xs :: real list)"
  by (induction xs arbitrary: a) auto

lemma py_sum_sum_list: "py_sum xs = sum_list xs"
  by (simp add: py_sum_def foldl_plus)

lemma item_box_leaf: "tree_to_list (item_box L bl it) = [item_box L bl it]"
  "\<not> is_block_container (item_box L bl it)"
  by (auto simp: item_box_def is_block_container_def split: option.splits)

lemma line_not_container: "\<not> is_block_container (LineLayout x y w h cs)"
  by (simp add: is_block_container_def)

lemma line_layout_good: "c \<in> set (tree_to_list (line_layout L lx lw y items)) \<Longrightarrow> \<not> is_block_container c"
  by (auto simp: line_layout_def Let_def line_not_container item_box_leaf split: if_splits)

lemma lines_layout_good:
  "c \<in> set (concat (map tree_to_list (lines_layout L lx lw y ls))) \<Longrightarrow> \<not> is_block_container c"
proof (induction ls arbitrary: y)
  case Nil
  then show ?case by simp
next
  case (Cons l ls)
  then show ?case by (auto simp: Let_def dest: line_layout_good)
qed

lemma inline_block_good:
  "heights_add_up (BlockLayout x y w (py_sum (map box_height (lines_layout L lx lw y0 ls))) (lines_layout L lx lw y0 ls))"
  unfolding heights_add_up_def
  using lines_layout_good [of _ L lx lw y0 ls]
  by (auto simp: py_sum_sum_list)

lemma block_good_children:
  "\<forall>b\<in>set kids. heights_add_up b \<Longrightarrow> heights_add_up (BlockLayout x y w (py_sum (map box_height kids)) kids)"
  unfolding heights_add_up_def by (auto simp: py_sum_sum_list)

lemma block_layout_good:
  "block_layout L x y w n = Inr b \<Longrightarrow> heights_add_up b"
  "blocks_layout L x y w ns = Inr bs \<Longrightarrow> \<forall>b\<in>set bs. heights_add_up b"
proof (induction L x y w n and L x y w ns arbitrary: b and bs rule: block_layout_blocks_layout.induct)
  case (1 L x y w t st)
  then show ?case
    by (auto simp: Let_def inline_block_good split: sum.splits)
next
  case (2 L x y w tg as cs st)
  show ?case
  proof (cases "layout_mode (Element tg as cs st) = ''block''")
    case True
    with 2 show ?thesis
      by (auto split: sum.splits intro!: block_good_children)
  next
    case False
    with 2(2) show ?thesis
      by (auto simp: Let_def inline_block_good split: sum.splits)
  qed
next
  case (3 L x y w)
  then show ?case by simp
next
  case (4 L x y w c cs)
  then show ?case by (auto split: sum.splits)
qed

lemma document_layout_good:
  assumes "document_layout K L nodes width = Inr doc"
  shows "heights_add_up doc"
proof -
  from assms obtain child where
    c: "block_layout L (HSTEP K) (VSTEP K) (width - 2 * HSTEP K) nodes = Inr child" and
    d: "doc = DocumentLayout (HSTEP K) (VSTEP K) (width - 2 * HSTEP K) (box_height child) [child]"
    by (auto simp: document_layout_def Let_def split: sum.splits)
  from block_layout_good(1) [OF c] show ?thesis
    unfolding d heights_add_up_def by auto
qed

text \<open>
  C9. In the layout tree \<^verbatim>\<open>DocumentLayout.layout\<close> builds, the height of the document box
  and of every block box, in block mode and in inline mode, is the sum of the heights of
  its children.
\<close>

theorem block_height_is_sum_of_children:
  assumes "document_layout K L nodes width = Inr doc"
  shows "\<forall>b\<in>set (tree_to_list doc). is_block_container b \<longrightarrow>
           box_height b = sum_list (map box_height (box_children b))"
  using document_layout_good [OF assms] by (simp add: heights_add_up_def)

theorem block_height_is_sum_of_children_witness:
  "document_layout sample_constants sample_fontlib sample_dom 800 = Inr sample_doc
   \<and> is_block_container sample_doc
   \<and> box_height sample_doc = sum_list (map box_height (box_children sample_doc))
   \<and> is_block_container (BlockLayout 13 18 774 (75 / 2)
          [BlockLayout 13 18 774 (75 / 4)
             [LineLayout 13 18 774 (75 / 4) [TextLayout ''hi'' font12 13 21 12 15]],
           BlockLayout 13 (147 / 4) 774 (75 / 4)
             [LineLayout 13 (147 / 4) 774 (75 / 4)
                [TextLayout ''bye'' font12 13 (159 / 4) 18 15]]])
   \<and> (75 / 2 :: real) = 75 / 4 + 75 / 4"
proof -
  have d: "document_layout sample_constants sample_fontlib sample_dom 800 = Inr sample_doc"
    by code_simp
  let ?body = "BlockLayout 13 18 774 (75 / 2)
          [BlockLayout 13 18 774 (75 / 4)
             [LineLayout 13 18 774 (75 / 4) [TextLayout ''hi'' font12 13 21 12 15]],
           BlockLayout 13 (147 / 4) 774 (75 / 4)
             [LineLayout 13 (147 / 4) 774 (75 / 4)
                [TextLayout ''bye'' font12 13 (159 / 4) 18 15]]]"
  have m1: "sample_doc \<in> set (tree_to_list sample_doc)" by (simp add: sample_doc_def)
  have m2: "?body \<in> set (tree_to_list sample_doc)" by (simp add: sample_doc_def)
  have c1: "is_block_container sample_doc" by (simp add: sample_doc_def is_block_container_def)
  have c2: "is_block_container ?body" by (simp add: is_block_container_def)
  note T = block_height_is_sum_of_children [OF d, rule_format]
  have h1: "box_height sample_doc = sum_list (map box_height (box_children sample_doc))"
    using m1 c1 by (rule T)
  have h2: "box_height ?body = sum_list (map box_height (box_children ?body))"
    using m2 c2 by (rule T)
  have e: "(75 / 2 :: real) = 75 / 4 + 75 / 4" using h2 by simp
  show ?thesis by (intro conjI d c1 h1 c2 e)
qed


section \<open>Facts about the font of a word\<close>






end
